theory Spec2Isabelle
  imports Main "HOL-Library.AList"
begin

section \<open>JavaScript values, truthiness and the short-circuit or\<close>

text \<open>
  The payload of a call has the TypeScript type \<open>T = unknown\<close>: any JavaScript value.
  Numbers are restricted to integers (so \<open>NaN\<close>, the other falsy number, is left out);
  an object is its list of own enumerable properties in insertion order.
\<close>

datatype jsval =
    JUndefined
  | JNull
  | JBool bool
  | JNum int
  | JStr string
  | JArr "jsval list"
  | JObj "(string \<times> jsval) list"

text \<open>What \<open>if (data)\<close> and \<open>data && ...\<close> test.\<close>

fun truthy :: "jsval \<Rightarrow> bool" where
  "truthy JUndefined = False"
| "truthy JNull = False"
| "truthy (JBool b) = b"
| "truthy (JNum n) = (n \<noteq> 0)"
| "truthy (JStr s) = (s \<noteq> [])"
| "truthy (JArr xs) = True"
| "truthy (JObj ps) = True"

definition str_truthy :: "string \<Rightarrow> bool" where
  "str_truthy s = (s \<noteq> [])"

definition num_truthy :: "int \<Rightarrow> bool" where
  "num_truthy n = (n \<noteq> 0)"

text \<open>Functions and objects are always truthy.\<close>

definition ref_truthy :: "'a \<Rightarrow> bool" where
  "ref_truthy x = True"

text \<open>
  An optional property is an \<open>option\<close>: \<open>None\<close> is \<open>undefined\<close> (absent).
  \<open>a || b\<close> is \<open>a\<close> when \<open>a\<close> is truthy and \<open>b\<close> otherwise; \<open>js_or_else\<close> is
  the last link of a chain, whose right operand is a literal.
\<close>

definition js_or :: "('a \<Rightarrow> bool) \<Rightarrow> 'a option \<Rightarrow> 'a option \<Rightarrow> 'a option" where
  "js_or t a b = (case a of None \<Rightarrow> b | Some x \<Rightarrow> if t x then Some x else b)"

definition js_or_else :: "('a \<Rightarrow> bool) \<Rightarrow> 'a option \<Rightarrow> 'a \<Rightarrow> 'a" where
  "js_or_else t a x = (case a of None \<Rightarrow> x | Some y \<Rightarrow> if t y then y else x)"

section \<open>Strings\<close>

definition starts_with :: "string \<Rightarrow> string \<Rightarrow> bool" where
  "starts_with p s = (take (length p) s = p)"

text \<open>\<open>s.includes(t)\<close>: \<open>t\<close> occurs in \<open>s\<close> as a contiguous substring.\<close>

fun includes_str :: "string \<Rightarrow> string \<Rightarrow> bool" where
  "includes_str [] t = (t = [])"
| "includes_str (c # s) t = (starts_with t (c # s) \<or> includes_str s t)"

text \<open>A number inside a template literal: its decimal digits.\<close>

definition digit_char :: "nat \<Rightarrow> char" where
  "digit_char n = char_of (48 + n)"

fun show_nat :: "nat \<Rightarrow> string" where
  "show_nat n = (if n < 10 then [digit_char n] else show_nat (n div 10) @ [digit_char (n mod 10)])"

definition show_int :: "int \<Rightarrow> string" where
  "show_int i = (if i < 0 then CHR ''-'' # show_nat (nat (- i)) else show_nat (nat i))"

section \<open>Plain objects: property order, spread\<close>

text \<open>
  A \<open>Record<string, string>\<close> is the list of its properties in insertion order.
  \<open>Object.keys\<close> and the spread \<open>{...o}\<close> enumerate array-index keys first, in ascending
  numeric order, and the other keys after them in insertion order.
\<close>

type_synonym 'a object = "(string \<times> 'a) list"

definition is_digit :: "char \<Rightarrow> bool" where
  "is_digit c = (48 \<le> (of_char c :: nat) \<and> (of_char c :: nat) \<le> 57)"

definition digits_value :: "string \<Rightarrow> int" where
  "digits_value s = foldl (\<lambda>n c. 10 * n + ((of_char c :: int) - 48)) 0 s"

definition is_array_index :: "string \<Rightarrow> bool" where
  "is_array_index k =
     (k \<noteq> [] \<and> list_all is_digit k \<and> (k = ''0'' \<or> take 1 k \<noteq> ''0'')
      \<and> digits_value k < 4294967295)"

definition Object_keys :: "'a object \<Rightarrow> string list" where
  "Object_keys obj =
     (let ks = map fst obj
      in sort_key digits_value (filter is_array_index ks) @ filter (\<lambda>k. \<not> is_array_index k) ks)"

definition Object_entries :: "'a object \<Rightarrow> (string \<times> 'a) list" where
  "Object_entries obj =
     concat (map (\<lambda>k. case map_of obj k of None \<Rightarrow> [] | Some v \<Rightarrow> [(k, v)]) (Object_keys obj))"

text \<open>
  \<open>{...tgt, ...src}\<close>, one source at a time: every own property of the source is written
  to the target (a key the target has keeps its place and takes the new value, a new key
  goes last). Spreading \<open>undefined\<close> copies nothing.
\<close>

definition spread_into :: "'a object option \<Rightarrow> 'a object \<Rightarrow> 'a object" where
  "spread_into src tgt =
     (case src of None \<Rightarrow> tgt
      | Some obj \<Rightarrow> fold (\<lambda>kv acc. AList.update (fst kv) (snd kv) acc) (Object_entries obj) tgt)"

text \<open>\<open>Object.fromEntries\<close>: the properties are written in the order of the entries.\<close>

definition Object_fromEntries :: "(string \<times> 'a) list \<Rightarrow> 'a object" where
  "Object_fromEntries es = fold (\<lambda>kv acc. AList.update (fst kv) (snd kv) acc) es []"

section \<open>Percent-encoding\<close>

definition is_alnum :: "char \<Rightarrow> bool" where
  "is_alnum c =
     (let n = (of_char c :: nat)
      in (48 \<le> n \<and> n \<le> 57) \<or> (65 \<le> n \<and> n \<le> 90) \<or> (97 \<le> n \<and> n \<le> 122))"

definition hex_digit :: "nat \<Rightarrow> char" where
  "hex_digit n = (if n < 10 then char_of (48 + n) else char_of (55 + n))"

definition percent_byte :: "char \<Rightarrow> string" where
  "percent_byte c =
     [CHR ''%'', hex_digit ((of_char c :: nat) div 16), hex_digit ((of_char c :: nat) mod 16)]"

text \<open>
  \<open>encodeURIComponent\<close> on a string held as its UTF-8 bytes: letters, digits and
  \<open>- _ . ! ~ * ' ( )\<close> stay, every other byte becomes \<open>%XX\<close>.
\<close>

definition uri_unreserved :: "char \<Rightarrow> bool" where
  "uri_unreserved c = (is_alnum c \<or> c \<in> set (''-_.!~*()'' @ [char_of (39 :: nat)]))"

definition encodeURIComponent :: "string \<Rightarrow> string" where
  "encodeURIComponent s = concat (map (\<lambda>c. if uri_unreserved c then [c] else percent_byte c) s)"

section \<open>Structured URLs\<close>

text \<open>
  A \<open>URL\<close> object as far as the dispatcher uses it: its serialisation up to the end of
  the path, its query (\<open>None\<close> when it has none), its fragment, and the name-value list
  behind \<open>searchParams\<close>. Parsing and resolution against a base belong to the platform
  (\<open>new_URL\<close> below).
\<close>

record URL =
  url_prefix :: string
  url_query :: "string option"
  url_fragment :: "string option"
  url_searchParams :: "(string \<times> string) list"

text \<open>The \<open>application/x-www-form-urlencoded\<close> serialiser, which writes the query back.\<close>

definition urlencoded_byte :: "char \<Rightarrow> string" where
  "urlencoded_byte c =
     (if c = CHR '' '' then ''+''
      else if is_alnum c \<or> c \<in> set ''*-._'' then [c]
      else percent_byte c)"

definition urlencoded_string :: "string \<Rightarrow> string" where
  "urlencoded_string s = concat (map urlencoded_byte s)"

fun join :: "string \<Rightarrow> string list \<Rightarrow> string" where
  "join sep [] = []"
| "join sep [x] = x"
| "join sep (x # y # ys) = x @ sep @ join sep (y # ys)"

definition urlencoded_serialize :: "(string \<times> string) list \<Rightarrow> string" where
  "urlencoded_serialize ps =
     join ''&'' (map (\<lambda>kv. urlencoded_string (fst kv) @ ''='' @ urlencoded_string (snd kv)) ps)"

text \<open>
  \<open>url.searchParams.append(name, value)\<close>: the pair goes to the end of the list and the
  query becomes the serialisation of the whole list.
\<close>

definition searchParams_append :: "URL \<Rightarrow> string \<Rightarrow> string \<Rightarrow> URL" where
  "searchParams_append u k v =
     (let ps = url_searchParams u @ [(k, v)]
      in u\<lparr>url_searchParams := ps, url_query := Some (urlencoded_serialize ps)\<rparr>)"

definition URL_toString :: "URL \<Rightarrow> string" where
  "URL_toString u =
     url_prefix u
     @ (case url_query u of None \<Rightarrow> [] | Some q \<Rightarrow> CHR ''?'' # q)
     @ (case url_fragment u of None \<Rightarrow> [] | Some f \<Rightarrow> CHR ''#'' # f)"

section \<open>The dispatcher's types\<close>

datatype ContentType = ApplicationJson | FormUrlencoded

definition contentType_string :: "ContentType \<Rightarrow> string" where
  "contentType_string ct =
     (case ct of ApplicationJson \<Rightarrow> ''application/json''
      | FormUrlencoded \<Rightarrow> ''application/x-www-form-urlencoded'')"

datatype FetchMethod = GET | POST | PUT | DELETE

text \<open>
  \<open>FetcherConfig\<close>: every property is optional. \<open>headers\<close> is modelled in its plain
  mapping form (the \<open>Record<string, string>\<close> alternative of \<open>HeadersInit\<close>); the
  transform functions and the validator are pure.
\<close>

record FetcherConfig =
  baseUrl :: "string option"
  contentType :: "ContentType option"
  headers :: "string object option"
  params :: "string object option"
  timeout :: "int option"
  transformRequest :: "(jsval \<Rightarrow> string object \<Rightarrow> jsval) option"
  transformResponse :: "(jsval \<Rightarrow> jsval) option"
  validateStatus :: "(int \<Rightarrow> bool) option"
  token :: "string option"

text \<open>The object literal \<open>{}\<close>: the default of the \<open>config\<close> parameter and of \<open>Fetcher.defaults\<close>.\<close>

definition empty_config :: FetcherConfig where
  "empty_config =
     \<lparr>baseUrl = None, contentType = None, headers = None, params = None, timeout = None,
      transformRequest = None, transformResponse = None, validateStatus = None, token = None\<rparr>"

text \<open>
  The options handed to \<open>fetch\<close>. The abort signal is modelled by the delay, in
  milliseconds, of the timer that aborts it (\<open>None\<close>: no timer was set and the signal is
  never aborted by the dispatcher).
\<close>

record RequestInit =
  init_method :: FetchMethod
  init_headers :: "string object"
  init_body :: "string option"
  init_signal :: "int option"

text \<open>
  The response handle as the dispatcher reads it: status, status text, the entries of its
  header collection (names in lower case, as \<open>Headers\<close> keeps them), and what awaiting
  \<open>json()\<close> and the text reader gives (\<open>Inl\<close>: the promise rejects, with that reason).
\<close>

record Response =
  resp_status :: int
  resp_statusText :: string
  resp_headers :: "(string \<times> string) list"
  resp_json :: "string + jsval"
  resp_body_text :: "string + string"

text \<open>\<open>FetcherResponse\<close>, the envelope (its fields carry the prefix \<open>r_\<close>).\<close>

record FetcherResponse =
  r_data :: jsval
  r_status :: int
  r_statusText :: string
  r_headers :: "string object"
  r_config :: FetcherConfig
  r_request :: Response

text \<open>
  What a call can fail with: an \<open>Error\<close> the dispatcher throws itself, with its message;
  the \<open>TypeError\<close> of a platform constructor (\<open>new URL\<close>, \<open>new URLSearchParams\<close>); a
  rejection of the transport or of a body reader, passed on as it is.
\<close>

datatype error = Error string | TypeError | Rejected string

text \<open>
  The platform the dispatcher runs on. \<open>fetch\<close> is \<open>None\<close> where
  \<open>typeof fetch === 'undefined'\<close>; otherwise it takes the URL string, the options and the
  state of the transport, and gives a response or a rejection and the next state.
  \<open>new_URL url base\<close> is \<open>new URL(url, base)\<close> (\<open>None\<close>: it throws),
  \<open>JSON_stringify\<close> is \<open>JSON.stringify\<close> on a truthy value, and
  \<open>URLSearchParams_string d\<close> is \<open>new URLSearchParams(d).toString()\<close> (\<open>None\<close>: the
  constructor throws).
\<close>

record 't platform =
  fetch :: "(string \<Rightarrow> RequestInit \<Rightarrow> 't \<Rightarrow> (string + Response) \<times> 't) option"
  new_URL :: "string \<Rightarrow> string option \<Rightarrow> URL option"
  JSON_stringify :: "jsval \<Rightarrow> string"
  URLSearchParams_string :: "jsval \<Rightarrow> string option"

section \<open>Fetcher.request\<close>

subsection \<open>Resolving the target (lines 42 to 55)\<close>

text \<open>\<open>config.baseUrl || Fetcher.defaults.baseUrl || ''\<close>\<close>

definition effective_baseUrl :: "FetcherConfig \<Rightarrow> FetcherConfig \<Rightarrow> string" where
  "effective_baseUrl config defaults =
     js_or_else str_truthy (js_or str_truthy (baseUrl config) (baseUrl defaults)) []"

text \<open>The test of the regular expression \<open>/^(https?|ftp):\/\//\<close>.\<close>

definition absolute_url :: "string \<Rightarrow> bool" where
  "absolute_url url =
     (starts_with ''http://'' url \<or> starts_with ''https://'' url \<or> starts_with ''ftp://'' url)"

datatype FetchUrl = UrlObject URL | UrlString string

definition resolveUrl :: "'t platform \<Rightarrow> string \<Rightarrow> string \<Rightarrow> error + FetchUrl" where
  "resolveUrl p base url =
     (if absolute_url url then
        (case new_URL p url None of None \<Rightarrow> Inl TypeError | Some u \<Rightarrow> Inr (UrlObject u))
      else if str_truthy base then
        (case new_URL p url (Some base) of
           None \<Rightarrow> Inl (Error (''Invalid URL: '' @ url))
         | Some u \<Rightarrow> Inr (UrlObject u))
      else Inr (UrlString url))"

subsection \<open>Query parameters (lines 57 to 71)\<close>

text \<open>\<open>{ ...Fetcher.defaults.params, ...config.params }\<close>\<close>

definition urlParams :: "FetcherConfig \<Rightarrow> FetcherConfig \<Rightarrow> string object" where
  "urlParams config defaults = spread_into (params config) (spread_into (params defaults) [])"

text \<open>The string built by the loop over \<open>Object.keys(urlParams)\<close>, before its last character is cut.\<close>

definition queryString :: "string object \<Rightarrow> string" where
  "queryString ps =
     concat (map (\<lambda>kv. fst kv @ ''='' @ encodeURIComponent (snd kv) @ ''&'') (Object_entries ps))"

definition appendParams :: "FetcherConfig \<Rightarrow> FetcherConfig \<Rightarrow> FetchUrl \<Rightarrow> FetchUrl" where
  "appendParams config defaults fetchUrl =
     (if js_or ref_truthy (params config) (params defaults) \<noteq> None then
        (case fetchUrl of
           UrlString s \<Rightarrow> UrlString (s @ ''?'' @ butlast (queryString (urlParams config defaults)))
         | UrlObject u \<Rightarrow>
             UrlObject (fold (\<lambda>kv acc. searchParams_append acc (fst kv) (snd kv))
                          (Object_entries (urlParams config defaults)) u))
      else fetchUrl)"

definition FetchUrl_toString :: "FetchUrl \<Rightarrow> string" where
  "FetchUrl_toString fetchUrl = (case fetchUrl of UrlString s \<Rightarrow> s | UrlObject u \<Rightarrow> URL_toString u)"

subsection \<open>Headers, payload and timer (lines 73 to 113)\<close>

text \<open>\<open>config.contentType || Fetcher.defaults.contentType || 'application/json'\<close>\<close>

definition effective_contentType :: "FetcherConfig \<Rightarrow> FetcherConfig \<Rightarrow> ContentType" where
  "effective_contentType config defaults =
     js_or_else ref_truthy (js_or ref_truthy (contentType config) (contentType defaults))
       ApplicationJson"

definition requestHeaders :: "FetcherConfig \<Rightarrow> FetcherConfig \<Rightarrow> string object" where
  "requestHeaders config defaults =
     (let hs = AList.update ''Content-Type''
                 (contentType_string (effective_contentType config defaults))
                 (spread_into (headers config) (spread_into (headers defaults) []))
      in case token config of
           None \<Rightarrow> hs
         | Some t \<Rightarrow>
             if str_truthy t then AList.update ''Authorization'' (''Bearer '' @ t) (spread_into (Some hs) [])
             else hs)"

text \<open>\<open>config.transformRequest || Fetcher.defaults.transformRequest\<close>, applied to a truthy payload.\<close>

definition requestData :: "FetcherConfig \<Rightarrow> FetcherConfig \<Rightarrow> jsval \<Rightarrow> string object \<Rightarrow> jsval" where
  "requestData config defaults d hs =
     (if truthy d then
        (case js_or ref_truthy (transformRequest config) (transformRequest defaults) of
           None \<Rightarrow> d
         | Some f \<Rightarrow> f d hs)
      else d)"

definition requestBody :: "'t platform \<Rightarrow> ContentType \<Rightarrow> jsval \<Rightarrow> error + string option" where
  "requestBody p ct d =
     (if truthy d then
        (if ct = FormUrlencoded then
           (case URLSearchParams_string p d of None \<Rightarrow> Inl TypeError | Some b \<Rightarrow> Inr (Some b))
         else Inr (Some (JSON_stringify p d)))
      else Inr None)"

text \<open>
  \<open>if (config.timeout || Fetcher.defaults.timeout)\<close>: the timer set, with its delay.
\<close>

definition abortTimer :: "FetcherConfig \<Rightarrow> FetcherConfig \<Rightarrow> int option" where
  "abortTimer config defaults =
     (case js_or num_truthy (timeout config) (timeout defaults) of
        None \<Rightarrow> None
      | Some t \<Rightarrow> if num_truthy t then Some t else None)"

text \<open>Everything up to the call of \<open>fetch\<close>: the URL string and the options, or the error thrown.\<close>

definition prepare ::
  "'t platform \<Rightarrow> FetcherConfig \<Rightarrow> FetchMethod \<Rightarrow> string \<Rightarrow> jsval \<Rightarrow> FetcherConfig
     \<Rightarrow> error + (string \<times> RequestInit)" where
  "prepare p defaults m url d config =
     (case resolveUrl p (effective_baseUrl config defaults) url of
        Inl e \<Rightarrow> Inl e
      | Inr fetchUrl0 \<Rightarrow>
          (let fetchUrl = appendParams config defaults fetchUrl0;
               ct = effective_contentType config defaults;
               hs = requestHeaders config defaults;
               d' = requestData config defaults d hs
           in case requestBody p ct d' of
                Inl e \<Rightarrow> Inl e
              | Inr body \<Rightarrow>
                  Inr (FetchUrl_toString fetchUrl,
                       \<lparr>init_method = m, init_headers = hs, init_body = body,
                        init_signal = abortTimer config defaults\<rparr>)))"

subsection \<open>Handling the response (lines 117 to 145)\<close>

definition effective_validateStatus :: "FetcherConfig \<Rightarrow> FetcherConfig \<Rightarrow> int \<Rightarrow> bool" where
  "effective_validateStatus config defaults =
     js_or_else ref_truthy (js_or ref_truthy (validateStatus config) (validateStatus defaults))
       (\<lambda>status. 200 \<le> status \<and> status < 300)"

text \<open>\<open>response.headers.get('content-type')?.includes('application/json')\<close>\<close>

definition is_json_response :: "Response \<Rightarrow> bool" where
  "is_json_response response =
     (case map_of (resp_headers response) ''content-type'' of
        None \<Rightarrow> False
      | Some v \<Rightarrow> includes_str v ''application/json'')"

definition decodeBody :: "Response \<Rightarrow> error + jsval" where
  "decodeBody response =
     (if is_json_response response then
        (case resp_json response of Inl r \<Rightarrow> Inl (Rejected r) | Inr v \<Rightarrow> Inr v)
      else
        (case resp_body_text response of Inl r \<Rightarrow> Inl (Rejected r) | Inr s \<Rightarrow> Inr (JStr s)))"

definition responseData :: "FetcherConfig \<Rightarrow> FetcherConfig \<Rightarrow> jsval \<Rightarrow> jsval" where
  "responseData config defaults v =
     (case js_or ref_truthy (transformResponse config) (transformResponse defaults) of
        None \<Rightarrow> v
      | Some f \<Rightarrow> f v)"

definition receive :: "FetcherConfig \<Rightarrow> FetcherConfig \<Rightarrow> Response \<Rightarrow> error + FetcherResponse" where
  "receive config defaults response =
     (if \<not> effective_validateStatus config defaults (resp_status response) then
        Inl (Error (''Request failed with status code '' @ show_int (resp_status response)))
      else
        (case decodeBody response of
           Inl e \<Rightarrow> Inl e
         | Inr v \<Rightarrow>
             Inr \<lparr>r_data = responseData config defaults v,
                  r_status = resp_status response,
                  r_statusText = resp_statusText response,
                  r_headers = Object_fromEntries (resp_headers response),
                  r_config = config,
                  r_request = response\<rparr>))"

subsection \<open>The whole call, and the four wrappers\<close>

definition fetch_undefined_message :: string where
  "fetch_undefined_message =
     ''fetch is not defined. If you are running this on the backend, make sure to install a fetch-compatible library.''"

text \<open>
  \<open>Fetcher.defaults\<close> is read and never written by a call, so it is an argument. The
  \<open>config\<close> argument is optional (\<open>None\<close>: left out or \<open>undefined\<close>) and defaults to \<open>{}\<close>;
  a left-out payload is \<open>JUndefined\<close>. The state threaded through is the transport's.
\<close>

definition config_argument :: "FetcherConfig option \<Rightarrow> FetcherConfig" where
  "config_argument cfg = (case cfg of None \<Rightarrow> empty_config | Some c \<Rightarrow> c)"

definition request ::
  "'t platform \<Rightarrow> FetcherConfig \<Rightarrow> FetchMethod \<Rightarrow> string \<Rightarrow> jsval \<Rightarrow> FetcherConfig option
     \<Rightarrow> 't \<Rightarrow> (error + FetcherResponse) \<times> 't" where
  "request p defaults m url d cfg s =
     (let config = config_argument cfg
      in case fetch p of
           None \<Rightarrow> (Inl (Error fetch_undefined_message), s)
         | Some transport \<Rightarrow>
             (case prepare p defaults m url d config of
                Inl e \<Rightarrow> (Inl e, s)
              | Inr call \<Rightarrow>
                  (case transport (fst call) (snd call) s of
                     (Inl reason, s') \<Rightarrow> (Inl (Rejected reason), s')
                   | (Inr response, s') \<Rightarrow> (receive config defaults response, s'))))"

definition get ::
  "'t platform \<Rightarrow> FetcherConfig \<Rightarrow> string \<Rightarrow> FetcherConfig option
     \<Rightarrow> 't \<Rightarrow> (error + FetcherResponse) \<times> 't" where
  "get p defaults url cfg = request p defaults GET url JUndefined cfg"

definition post ::
  "'t platform \<Rightarrow> FetcherConfig \<Rightarrow> string \<Rightarrow> jsval \<Rightarrow> FetcherConfig option
     \<Rightarrow> 't \<Rightarrow> (error + FetcherResponse) \<times> 't" where
  "post p defaults url d cfg = request p defaults POST url d cfg"

definition put ::
  "'t platform \<Rightarrow> FetcherConfig \<Rightarrow> string \<Rightarrow> jsval \<Rightarrow> FetcherConfig option
     \<Rightarrow> 't \<Rightarrow> (error + FetcherResponse) \<times> 't" where
  "put p defaults url d cfg = request p defaults PUT url d cfg"

definition delete ::
  "'t platform \<Rightarrow> FetcherConfig \<Rightarrow> string \<Rightarrow> FetcherConfig option
     \<Rightarrow> 't \<Rightarrow> (error + FetcherResponse) \<times> 't" where
  "delete p defaults url cfg = request p defaults DELETE url JUndefined cfg"

section \<open>A mocked platform\<close>

text \<open>
  The repository's test replaces the transport by a mock that resolves to a fixed
  response. The platform below does the same: its transport answers every call with the
  response given and counts the calls in its state; \<open>new URL\<close> is a table of the URLs a
  scenario uses; \<open>JSON.stringify\<close> is written out for the values of \<open>jsval\<close>, and
  \<open>URLSearchParams\<close> for its record form with string values (the mock throws on any
  other initialiser).
\<close>

definition json_escape :: "char \<Rightarrow> string" where
  "json_escape c =
     (let n = (of_char c :: nat); bs = char_of (92 :: nat)
      in if n = 34 then [bs, c]
         else if n = 92 then [bs, c]
         else if n = 8 then [bs, CHR ''b'']
         else if n = 9 then [bs, CHR ''t'']
         else if n = 10 then [bs, CHR ''n'']
         else if n = 12 then [bs, CHR ''f'']
         else if n = 13 then [bs, CHR ''r'']
         else if n < 32 then
           [bs, CHR ''u'', CHR ''0'', CHR ''0'', (if n < 16 then CHR ''0'' else CHR ''1''),
            ''0123456789abcdef'' ! (n mod 16)]
         else [c])"

definition json_quote :: "string \<Rightarrow> string" where
  "json_quote s = char_of (34 :: nat) # concat (map json_escape s) @ [char_of (34 :: nat)]"

fun json_text :: "jsval \<Rightarrow> string option" where
  "json_text JUndefined = None"
| "json_text JNull = Some ''null''"
| "json_text (JBool b) = Some (if b then ''true'' else ''false'')"
| "json_text (JNum n) = Some (show_int n)"
| "json_text (JStr s) = Some (json_quote s)"
| "json_text (JArr xs) =
     Some (''['' @ join '','' (map (\<lambda>x. case json_text x of None \<Rightarrow> ''null'' | Some t \<Rightarrow> t) xs)
           @ '']'')"
| "json_text (JObj ps) =
     Some (''{'' @ join '',''
             (concat (map (\<lambda>kv. case snd kv of None \<Rightarrow> []
                                | Some t \<Rightarrow> [json_quote (fst kv) @ '':'' @ t])
                (Object_entries (map (\<lambda>kv. (fst kv, json_text (snd kv))) ps))))
           @ ''}'')"

definition mock_JSON_stringify :: "jsval \<Rightarrow> string" where
  "mock_JSON_stringify v = (case json_text v of None \<Rightarrow> [] | Some t \<Rightarrow> t)"

fun string_values :: "(string \<times> jsval) list \<Rightarrow> (string \<times> string) list option" where
  "string_values [] = Some []"
| "string_values ((k, JStr s) # ps) = map_option (\<lambda>qs. (k, s) # qs) (string_values ps)"
| "string_values ((k, v) # ps) = None"

definition mock_URLSearchParams_string :: "jsval \<Rightarrow> string option" where
  "mock_URLSearchParams_string d =
     (case d of
        JObj ps \<Rightarrow> map_option (\<lambda>qs. urlencoded_serialize (Object_entries qs)) (string_values ps)
      | _ \<Rightarrow> None)"

definition mock_fetch :: "Response \<Rightarrow> string \<Rightarrow> RequestInit \<Rightarrow> nat \<Rightarrow> (string + Response) \<times> nat" where
  "mock_fetch response url init calls = (Inr response, Suc calls)"

definition mock_platform ::
  "Response \<Rightarrow> ((string \<times> string option) \<times> URL) list \<Rightarrow> nat platform" where
  "mock_platform response urls =
     \<lparr>fetch = Some (mock_fetch response),
      new_URL = (\<lambda>url base. map_of urls (url, base)),
      JSON_stringify = mock_JSON_stringify,
      URLSearchParams_string = mock_URLSearchParams_string\<rparr>"

text \<open>A response with a JSON body and the content type that announces it.\<close>

definition json_response :: "int \<Rightarrow> string \<Rightarrow> jsval \<Rightarrow> Response" where
  "json_response st txt v =
     \<lparr>resp_status = st, resp_statusText = txt,
      resp_headers = [(''content-type'', ''application/json'')],
      resp_json = Inr v, resp_body_text = Inr (mock_JSON_stringify v)\<rparr>"

text \<open>What \<open>new URL('https://api.example.com/data')\<close> is.\<close>

definition example_url :: URL where
  "example_url =
     \<lparr>url_prefix = ''https://api.example.com/data'', url_query = None, url_fragment = None,
      url_searchParams = []\<rparr>"

text \<open>What \<open>new URL('https://api.example.com/data?x=1')\<close> is.\<close>

definition example_url_with_query :: URL where
  "example_url_with_query =
     \<lparr>url_prefix = ''https://api.example.com/data'', url_query = Some ''x=1'',
      url_fragment = None, url_searchParams = [(''x'', ''1'')]\<rparr>"

definition example_urls :: "((string \<times> string option) \<times> URL) list" where
  "example_urls =
     [((''https://api.example.com/data'', None), example_url),
      ((''/data'', Some ''https://api.example.com''), example_url),
      ((''https://api.example.com/data?x=1'', None), example_url_with_query)]"

section \<open>Notions the statements below use\<close>

text \<open>\<open>obj?.[k]\<close>: the value of a property of an optional object.\<close>

definition property :: "'a object option \<Rightarrow> string \<Rightarrow> 'a option" where
  "property obj k = (case obj of None \<Rightarrow> None | Some ps \<Rightarrow> map_of ps k)"

text \<open>
  The effective configuration in the words of the specification: field by field, the
  per-call value, else the default value, else the built-in fallback (the empty base URL,
  JSON, the range 200 to 299).
\<close>

definition spec_field :: "'a option \<Rightarrow> 'a option \<Rightarrow> 'a option" where
  "spec_field a b = (case a of None \<Rightarrow> b | Some x \<Rightarrow> Some x)"

definition spec_effective_config :: "FetcherConfig \<Rightarrow> FetcherConfig \<Rightarrow> FetcherConfig" where
  "spec_effective_config config defaults =
     \<lparr>baseUrl = spec_field (spec_field (baseUrl config) (baseUrl defaults)) (Some []),
      contentType =
        spec_field (spec_field (contentType config) (contentType defaults)) (Some ApplicationJson),
      headers = spec_field (headers config) (headers defaults),
      params = spec_field (params config) (params defaults),
      timeout = spec_field (timeout config) (timeout defaults),
      transformRequest = spec_field (transformRequest config) (transformRequest defaults),
      transformResponse = spec_field (transformResponse config) (transformResponse defaults),
      validateStatus =
        spec_field (spec_field (validateStatus config) (validateStatus defaults))
          (Some (\<lambda>status. 200 \<le> status \<and> status < 300)),
      token = spec_field (token config) (token defaults)\<rparr>"



section \<open>Scenarios\<close>

text \<open>The values the scenarios below are run on.\<close>

definition success_response :: Response where
  "success_response = json_response 200 ''OK'' (JObj [(''message'', JStr ''success'')])"

definition success_envelope :: "FetcherConfig \<Rightarrow> FetcherResponse" where
  "success_envelope c =
     \<lparr>r_data = JObj [(''message'', JStr ''success'')], r_status = 200, r_statusText = ''OK'',
      r_headers = [(''content-type'', ''application/json'')], r_config = c,
      r_request = success_response\<rparr>"

definition defaults_with_base :: FetcherConfig where
  "defaults_with_base = empty_config\<lparr>baseUrl := Some ''https://api.example.com''\<rparr>"




definition defaults_invalid_base :: FetcherConfig where
  "defaults_invalid_base = empty_config\<lparr>baseUrl := Some ''not a url''\<rparr>"



definition payload_example :: jsval where
  "payload_example = JObj [(''a'', JNum 1)]"

definition config_wrapping :: FetcherConfig where
  "config_wrapping = empty_config\<lparr>transformRequest := Some (\<lambda>d hs. JObj [(''wrapped'', d)])\<rparr>"

definition config_form :: FetcherConfig where
  "config_form = empty_config\<lparr>contentType := Some FormUrlencoded\<rparr>"


definition defaults_params :: FetcherConfig where
  "defaults_params = empty_config\<lparr>params := Some [(''lang'', ''en''), (''page'', ''1'')]\<rparr>"

definition config_params :: FetcherConfig where
  "config_params = empty_config\<lparr>params := Some [(''q'', ''a b&c''), (''page'', ''2'')]\<rparr>"

definition config_params_x :: FetcherConfig where
  "config_params_x = empty_config\<lparr>params := Some [(''x'', ''2'')]\<rparr>"

section \<open>Objects: keys, values and spread\<close>

lemma fold_update_keys:
  "fst ` set (fold (\<lambda>kv acc. AList.update (fst kv) (snd kv) acc) es tgt) = fst ` set es \<union> fst ` set tgt"
  by (induction es arbitrary: tgt) (auto simp: AList.dom_update)

lemma fold_update_distinct:
  "distinct (map fst tgt) \<Longrightarrow> distinct (map fst (fold (\<lambda>kv acc. AList.update (fst kv) (snd kv) acc) es tgt))"
  by (induction es arbitrary: tgt) (auto simp: AList.distinct_update)

lemma fold_update_map_of:
  "map_of (fold (\<lambda>kv acc. AList.update (fst kv) (snd kv) acc) es tgt) = map_of tgt ++ map_of (rev es)"
proof (induction es arbitrary: tgt)
  case Nil
  then show ?case by simp
next
  case (Cons e es)
  have "map_of (AList.update (fst e) (snd e) tgt) ++ map_of (rev es)
        = map_of tgt ++ (map_of [e] ++ map_of (rev es))"
    by (cases e) (simp add: AList.update_conv' map_add_upd_left fun_eq_iff map_add_def split: option.splits)
  then show ?case using Cons.IH by simp
qed

lemma set_Object_keys: "set (Object_keys obj) = fst ` set obj"
  by (auto simp: Object_keys_def Let_def)

lemma distinct_Object_keys: "distinct (map fst obj) \<Longrightarrow> distinct (Object_keys obj)"
  by (auto simp: Object_keys_def Let_def)

lemma entries_of_keys:
  "\<forall>k \<in> set ks. m k \<noteq> None \<Longrightarrow>
   map fst (concat (map (\<lambda>k. case m k of None \<Rightarrow> [] | Some v \<Rightarrow> [(k, v)]) ks)) = ks"
  by (induction ks) (auto split: option.splits)

lemma keys_Object_entries: "map fst (Object_entries obj) = Object_keys obj"
  unfolding Object_entries_def
  by (rule entries_of_keys) (auto simp: set_Object_keys map_of_eq_None_iff)

lemma set_Object_entries: "set (Object_entries obj) = {(k, v). map_of obj k = Some v}"
  by (auto simp: Object_entries_def set_Object_keys split: option.splits dest: map_of_SomeD
      intro: rev_image_eqI)

lemma map_of_agree:
  assumes "\<And>k v. (k, v) \<in> set es \<Longrightarrow> m k = Some v" and "fst ` set es = dom m"
  shows "map_of es = m"
proof
  fix k
  show "map_of es k = m k"
  proof (cases "map_of es k")
    case None
    then have "k \<notin> fst ` set es" by (simp add: map_of_eq_None_iff)
    with assms(2) None show ?thesis by auto
  next
    case (Some v)
    then have "(k, v) \<in> set es" by (rule map_of_SomeD)
    with assms(1) Some show ?thesis by simp
  qed
qed

lemma map_of_rev_Object_entries: "map_of (rev (Object_entries obj)) = map_of obj"
  by (rule map_of_agree) (force simp: set_Object_entries dom_def)+

lemma map_of_spread_into:
  "map_of (spread_into src tgt) = map_of tgt ++ (case src of None \<Rightarrow> Map.empty | Some obj \<Rightarrow> map_of obj)"
  by (cases src) (simp_all add: spread_into_def fold_update_map_of map_of_rev_Object_entries)

lemma distinct_spread_into:
  "distinct (map fst tgt) \<Longrightarrow> distinct (map fst (spread_into src tgt))"
  by (cases src) (simp_all add: spread_into_def fold_update_distinct)

lemma keys_spread_into:
  "fst ` set (spread_into src tgt) = (case src of None \<Rightarrow> {} | Some obj \<Rightarrow> fst ` set obj) \<union> fst ` set tgt"
proof (cases src)
  case None
  then show ?thesis by (simp add: spread_into_def)
next
  case (Some obj)
  have "fst ` set (Object_entries obj) = fst ` set obj"
    using set_Object_keys[of obj] by (simp add: keys_Object_entries[symmetric])
  with Some show ?thesis by (simp add: spread_into_def fold_update_keys)
qed

lemma butlast_queryString:
  "butlast (concat (map (\<lambda>kv. f kv @ ''&'') es)) = join ''&'' (map f es)"
proof (induction es rule: induct_list012)
  case 1 show ?case by simp
next
  case (2 x) show ?case by simp
next
  case (3 x y zs)
  then show ?case by (simp add: butlast_append)
qed

section \<open>Unfolding the dispatcher on concrete calls\<close>

lemmas dispatch_defs =
  request_def prepare_def receive_def resolveUrl_def appendParams_def FetchUrl_toString_def
  effective_baseUrl_def effective_contentType_def effective_validateStatus_def
  requestHeaders_def requestData_def requestBody_def abortTimer_def decodeBody_def
  is_json_response_def responseData_def urlParams_def queryString_def config_argument_def
  js_or_def js_or_else_def str_truthy_def num_truthy_def ref_truthy_def absolute_url_def
  starts_with_def spread_into_def contentType_string_def URL_toString_def
  searchParams_append_def Object_fromEntries_def

lemmas mock_defs =
  mock_platform_def mock_fetch_def json_response_def example_urls_def example_url_def
  example_url_with_query_def empty_config_def

section \<open>What the envelope echoes\<close>

text \<open>
  C1 (as amended). For every call that returns, the \<open>config\<close> field of the envelope is the
  per-call config object as it was passed in, and the empty object when none was passed;
  the defaults and the built-in fallbacks are not merged into it.
\<close>

theorem envelope_config_is_argument:
  assumes "request p defaults m url d cfg s = (Inr env, s')"
  shows "r_config env = (case cfg of None \<Rightarrow> empty_config | Some c \<Rightarrow> c)"
  using assms
  by (auto simp: request_def receive_def config_argument_def Let_def
      split: option.splits sum.splits prod.splits if_splits)

text \<open>
  The scenario of the repository's test, with a base URL in the defaults: \<open>get('/data')\<close>
  against a transport that answers 200 with a JSON body.
\<close>

lemma get_example:
  "get (mock_platform success_response example_urls) defaults_with_base ''/data'' None 0
   = (Inr (success_envelope empty_config), 1)"
  by (simp add: get_def dispatch_defs mock_defs defaults_with_base_def success_response_def
       success_envelope_def Object_entries_def Object_keys_def)

theorem envelope_config_counterexample:
  "map_sum id (baseUrl \<circ> r_config)
     (fst (get (mock_platform success_response example_urls) defaults_with_base ''/data'' None 0))
   = Inr None
   \<and> baseUrl (spec_effective_config empty_config defaults_with_base) = Some ''https://api.example.com''"
proof -
  have "map_sum id (baseUrl \<circ> r_config)
     (fst (get (mock_platform success_response example_urls) defaults_with_base ''/data'' None 0))
   = Inr None"
    by (simp add: get_example success_envelope_def empty_config_def)
  moreover have "baseUrl (spec_effective_config empty_config defaults_with_base) = Some ''https://api.example.com''"
    by (simp add: spec_effective_config_def spec_field_def empty_config_def defaults_with_base_def)
  ultimately show ?thesis by simp
qed

theorem envelope_config_witness:
  "request (mock_platform success_response example_urls) defaults_with_base GET ''/data'' JUndefined None 0
     = (Inr (success_envelope empty_config), 1)
   \<and> r_config (success_envelope empty_config) = empty_config"
  using envelope_config_is_argument[OF get_example[unfolded get_def]] get_example[unfolded get_def]
  by simp

section \<open>Override precedence\<close>



lemma effective_contentType_cases:
  "effective_contentType c D =
       (case contentType c of Some x \<Rightarrow> x
        | None \<Rightarrow> (case contentType D of Some x \<Rightarrow> x | None \<Rightarrow> ApplicationJson))"
  by (simp add: effective_contentType_def js_or_def js_or_else_def ref_truthy_def split: option.splits)


lemma requestData_cases:
  "requestData c D d hs =
       (if truthy d then
          (case transformRequest c of Some f \<Rightarrow> f d hs
           | None \<Rightarrow> (case transformRequest D of Some f \<Rightarrow> f d hs | None \<Rightarrow> d))
        else d)"
  by (simp add: requestData_def js_or_def ref_truthy_def split: option.splits)


lemma map_of_urlParams:
  "map_of (urlParams c D) k =
       (case property (params c) k of Some x \<Rightarrow> Some x | None \<Rightarrow> property (params D) k)"
  by (simp add: urlParams_def map_of_spread_into property_def map_add_def split: option.splits)

lemma prepare_Inr:
  assumes "prepare p D m url d c = Inr call"
  shows "init_method (snd call) = m"
    and "init_headers (snd call) = requestHeaders c D"
    and "init_signal (snd call) = abortTimer c D"
    and "requestBody p (effective_contentType c D) (requestData c D d (requestHeaders c D))
           = Inr (init_body (snd call))"
    and "\<exists>u. resolveUrl p (effective_baseUrl c D) url = Inr u
             \<and> fst call = FetchUrl_toString (appendParams c D u)"
  using assms by (auto simp: prepare_def Let_def split: sum.splits)






section \<open>Resolving a relative URL\<close>

lemma request_prepare_failed:
  assumes "fetch p = Some transport" and "prepare p D m url d (config_argument cfg) = Inl e"
  shows "request p D m url d cfg s = (Inl e, s)"
  using assms by (simp add: request_def)


text \<open>
  C3. Let the URL not match the scheme pattern, and let \<open>b\<close> be the base URL configured:
  the per-call one, else the default one, an empty string counting as none (line 42).
  When there is one, the target is the platform's resolution \<open>new URL(url, b)\<close>, and when
  that resolution throws, the call fails with the error \<open>Invalid URL: <url>\<close> and the
  transport is not reached. When there is none, the target is the string as given. With
  no query parameters configured, that target is what the transport is called with.
\<close>

theorem relative_url_resolution:
  assumes "\<not> absolute_url url"
    and "c = config_argument cfg"
    and "b = effective_baseUrl c D"
  shows
    "(b \<noteq> [] \<and> new_URL p url (Some b) = Some u
        \<longrightarrow> resolveUrl p b url = Inr (UrlObject u)
            \<and> (params c = None \<and> params D = None \<and> prepare p D m url d c = Inr call
                 \<longrightarrow> fst call = URL_toString u))
     \<and> (b \<noteq> [] \<and> new_URL p url (Some b) = None \<and> fetch p = Some transport
        \<longrightarrow> request p D m url d cfg s = (Inl (Error (''Invalid URL: '' @ url)), s))
     \<and> (b = []
        \<longrightarrow> resolveUrl p b url = Inr (UrlString url)
            \<and> (params c = None \<and> params D = None \<and> prepare p D m url d c = Inr call
                 \<longrightarrow> fst call = url))"
proof (intro conjI impI)
  assume h: "b \<noteq> [] \<and> new_URL p url (Some b) = Some u"
  with assms(1) show r: "resolveUrl p b url = Inr (UrlObject u)"
    by (simp add: resolveUrl_def str_truthy_def)
  assume "params c = None \<and> params D = None \<and> prepare p D m url d c = Inr call"
  with r show "fst call = URL_toString u"
    using prepare_Inr(5)[of p D m url d c call] assms(3)
    by (auto simp: appendParams_def js_or_def FetchUrl_toString_def)
next
  assume h: "b \<noteq> [] \<and> new_URL p url (Some b) = None \<and> fetch p = Some transport"
  with assms(1,3) have "prepare p D m url d c = Inl (Error (''Invalid URL: '' @ url))"
    by (simp add: prepare_def resolveUrl_def str_truthy_def)
  with h show "request p D m url d cfg s = (Inl (Error (''Invalid URL: '' @ url)), s)"
    using request_prepare_failed[of p transport D m url d cfg] assms(2)
    by simp
next
  assume h: "b = []"
  with assms(1) show r: "resolveUrl p b url = Inr (UrlString url)"
    by (simp add: resolveUrl_def str_truthy_def)
  assume "params c = None \<and> params D = None \<and> prepare p D m url d c = Inr call"
  with r show "fst call = url"
    using prepare_Inr(5)[of p D m url d c call] assms(3)
    by (auto simp: appendParams_def js_or_def FetchUrl_toString_def)
qed

text \<open>
  \<open>get('/data')\<close> with the base URL \<open>https://api.example.com\<close> in the defaults, with a
  base URL that is no URL, and with no base URL at all.
\<close>

lemma prepare_relative:
  "prepare (mock_platform success_response example_urls) defaults_with_base GET ''/data''
     JUndefined empty_config
   = Inr (''https://api.example.com/data'',
          \<lparr>init_method = GET, init_headers = [(''Content-Type'', ''application/json'')],
           init_body = None, init_signal = None\<rparr>)"
  by code_simp

lemma prepare_no_base:
  "prepare (mock_platform success_response example_urls) empty_config GET ''/data''
     JUndefined empty_config
   = Inr (''/data'',
          \<lparr>init_method = GET, init_headers = [(''Content-Type'', ''application/json'')],
           init_body = None, init_signal = None\<rparr>)"
  by code_simp

theorem relative_url_resolution_witness:
  "\<not> absolute_url ''/data''
   \<and> resolveUrl (mock_platform success_response example_urls) ''https://api.example.com'' ''/data''
       = Inr (UrlObject example_url)
   \<and> ''https://api.example.com/data'' = URL_toString example_url
   \<and> request (mock_platform success_response example_urls) defaults_invalid_base GET ''/data''
         JUndefined None 0
       = (Inl (Error ''Invalid URL: /data''), 0)
   \<and> resolveUrl (mock_platform success_response example_urls) [] ''/data'' = Inr (UrlString ''/data'')"
proof -
  let ?P = "mock_platform success_response example_urls"
  have na: "\<not> absolute_url ''/data''"
    by (simp add: absolute_url_def starts_with_def)
  have c: "empty_config = config_argument None"
    by (simp add: config_argument_def)
  have b1: "''https://api.example.com'' = effective_baseUrl empty_config defaults_with_base"
    and b2: "''not a url'' = effective_baseUrl empty_config defaults_invalid_base"
    and b3: "[] = effective_baseUrl empty_config empty_config"
    by (simp_all add: effective_baseUrl_def js_or_def js_or_else_def str_truthy_def
          defaults_with_base_def defaults_invalid_base_def empty_config_def)
  have u1: "new_URL ?P ''/data'' (Some ''https://api.example.com'') = Some example_url"
    and u2: "new_URL ?P ''/data'' (Some ''not a url'') = None"
    and f: "fetch ?P = Some (mock_fetch success_response)"
    by (simp_all add: mock_platform_def example_urls_def)
  have n: "params empty_config = None" "params defaults_with_base = None"
    by (simp_all add: empty_config_def defaults_with_base_def)
  let ?call = "(''https://api.example.com/data'',
          \<lparr>init_method = GET, init_headers = [(''Content-Type'', ''application/json'')],
           init_body = None, init_signal = None\<rparr>)"
  note r1 = relative_url_resolution[OF na c b1, where p = ?P and u = example_url and m = GET
      and d = JUndefined and call = ?call, THEN conjunct1]
  have "resolveUrl ?P ''https://api.example.com'' ''/data'' = Inr (UrlObject example_url)"
    using r1 u1 by simp
  moreover have "''https://api.example.com/data'' = URL_toString example_url"
    using r1 u1 n prepare_relative by simp
  moreover have "request ?P defaults_invalid_base GET ''/data'' JUndefined None 0
       = (Inl (Error ''Invalid URL: /data''), 0)"
    using relative_url_resolution[OF na c b2, where p = ?P
        and transport = "mock_fetch success_response" and m = GET and d = JUndefined
        and s = 0, THEN conjunct2, THEN conjunct1] u2 f
    by simp
  moreover have "resolveUrl ?P [] ''/data'' = Inr (UrlString ''/data'')"
    using relative_url_resolution[OF na c b3, where p = ?P, THEN conjunct2, THEN conjunct2]
    by simp
  ultimately show ?thesis using na by simp
qed

section \<open>Query parameters\<close>

lemma count_list_distinct:
  "distinct xs \<Longrightarrow> count_list xs k = (if k \<in> set xs then 1 else 0)"
  by (induction xs) auto

lemma distinct_urlParams: "distinct (map fst (urlParams c D))"
  by (simp add: urlParams_def distinct_spread_into)

lemma property_keys: "property obj k \<noteq> None \<longleftrightarrow> k \<in> (case obj of None \<Rightarrow> {} | Some ps \<Rightarrow> fst ` set ps)"
  by (cases obj) (simp_all add: property_def map_of_eq_None_iff)

lemma keys_urlParams:
  "k \<in> set (Object_keys (urlParams c D)) \<longleftrightarrow> property (params c) k \<noteq> None \<or> property (params D) k \<noteq> None"
  using property_keys[of "params c" k] property_keys[of "params D" k]
  by (simp add: set_Object_keys urlParams_def keys_spread_into)

lemma entry_urlParams:
  "(k, v) \<in> set (Object_entries (urlParams c D))
   \<longleftrightarrow> (case property (params c) k of Some x \<Rightarrow> Some x | None \<Rightarrow> property (params D) k) = Some v"
  by (simp add: set_Object_entries map_of_urlParams)

lemma fold_searchParams_append:
  "url_searchParams (fold (\<lambda>kv acc. searchParams_append acc (fst kv) (snd kv)) es u)
     = url_searchParams u @ es
   \<and> url_prefix (fold (\<lambda>kv acc. searchParams_append acc (fst kv) (snd kv)) es u) = url_prefix u
   \<and> url_fragment (fold (\<lambda>kv acc. searchParams_append acc (fst kv) (snd kv)) es u) = url_fragment u
   \<and> (es \<noteq> [] \<longrightarrow> url_query (fold (\<lambda>kv acc. searchParams_append acc (fst kv) (snd kv)) es u)
                      = Some (urlencoded_serialize (url_searchParams u @ es)))"
proof (induction es arbitrary: u)
  case Nil
  then show ?case by simp
next
  case (Cons e es)
  show ?case
    using Cons.IH[of "searchParams_append u (fst e) (snd e)"]
    by (cases es) (simp_all add: searchParams_append_def Let_def)
qed

lemma hex_digit_unreserved: "n < 16 \<Longrightarrow> uri_unreserved (hex_digit n)"
  by (auto simp: uri_unreserved_def is_alnum_def hex_digit_def Let_def)

lemma encodeURIComponent_chars:
  "list_all (\<lambda>ch. uri_unreserved ch \<or> ch = CHR ''%'') (encodeURIComponent v)"
proof -
  have "list_all (\<lambda>ch. uri_unreserved ch \<or> ch = CHR ''%'') (percent_byte ch)" for ch
  proof -
    have "(of_char ch :: nat) < 256" by simp
    then have "(of_char ch :: nat) div 16 < 16" by arith
    moreover have "(of_char ch :: nat) mod 16 < 16" by simp
    ultimately show ?thesis by (simp add: percent_byte_def hex_digit_unreserved)
  qed
  then show ?thesis
    by (induction v) (simp_all add: encodeURIComponent_def)
qed


text \<open>
  C4 (as amended). Let query parameters be configured, in the defaults, per call or both,
  and let the merged mapping be \<open>{...defaults.params, ...config.params}\<close>. The merged
  mapping holds the per-call value for every key the per-call mapping has (so for every
  key on which the two collide) and the default value for the other keys of the defaults;
  every key of the union is appended exactly once. On a plain string target the query
  \<open>?k=v&...\<close> is appended, each value passed through \<open>encodeURIComponent\<close> (whose output
  holds unreserved characters and \<open>%XX\<close> escapes only); on a structured URL each pair is
  appended to the search parameters the URL already has, which are kept, and the URL's
  serialiser encodes them. So a key the given URL already carries appears again.
\<close>

theorem merged_query_parameters:
  assumes "params c \<noteq> None \<or> params D \<noteq> None"
  shows
    "(property (params c) k = Some v \<longrightarrow> (k, v) \<in> set (Object_entries (urlParams c D)))
     \<and> (property (params c) k = None \<and> property (params D) k = Some v
          \<longrightarrow> (k, v) \<in> set (Object_entries (urlParams c D)))
     \<and> count_list (map fst (Object_entries (urlParams c D))) k
         = (if property (params c) k \<noteq> None \<or> property (params D) k \<noteq> None then 1 else 0)
     \<and> appendParams c D (UrlString s)
         = UrlString (s @ ''?'' @ join ''&''
             (map (\<lambda>kv. fst kv @ ''='' @ encodeURIComponent (snd kv)) (Object_entries (urlParams c D))))
     \<and> list_all (\<lambda>ch. uri_unreserved ch \<or> ch = CHR ''%'') (encodeURIComponent v)
     \<and> (\<exists>u'. appendParams c D (UrlObject u) = UrlObject u'
           \<and> url_searchParams u' = url_searchParams u @ Object_entries (urlParams c D)
           \<and> url_prefix u' = url_prefix u \<and> url_fragment u' = url_fragment u
           \<and> (Object_entries (urlParams c D) \<noteq> []
                \<longrightarrow> url_query u' = Some (urlencoded_serialize (url_searchParams u'))))"
proof -
  have on: "js_or ref_truthy (params c) (params D) \<noteq> None"
    using assms by (auto simp: js_or_def ref_truthy_def split: option.splits)
  have 1: "property (params c) k = Some v \<longrightarrow> (k, v) \<in> set (Object_entries (urlParams c D))"
    by (simp add: entry_urlParams)
  have 2: "property (params c) k = None \<and> property (params D) k = Some v
          \<longrightarrow> (k, v) \<in> set (Object_entries (urlParams c D))"
    by (simp add: entry_urlParams)
  have 3: "count_list (map fst (Object_entries (urlParams c D))) k
         = (if property (params c) k \<noteq> None \<or> property (params D) k \<noteq> None then 1 else 0)"
    using count_list_distinct[OF distinct_Object_keys[OF distinct_urlParams], of c D k]
      keys_urlParams[of k c D]
    by (simp add: keys_Object_entries)
  have 4: "appendParams c D (UrlString s)
         = UrlString (s @ ''?'' @ join ''&''
             (map (\<lambda>kv. fst kv @ ''='' @ encodeURIComponent (snd kv)) (Object_entries (urlParams c D))))"
    using on
      butlast_queryString[of "\<lambda>kv. fst kv @ ''='' @ encodeURIComponent (snd kv)"
        "Object_entries (urlParams c D)"]
    by (simp add: appendParams_def queryString_def)
  have 5: "list_all (\<lambda>ch. uri_unreserved ch \<or> ch = CHR ''%'') (encodeURIComponent v)"
    by (rule encodeURIComponent_chars)
  have 6: "\<exists>u'. appendParams c D (UrlObject u) = UrlObject u'
           \<and> url_searchParams u' = url_searchParams u @ Object_entries (urlParams c D)
           \<and> url_prefix u' = url_prefix u \<and> url_fragment u' = url_fragment u
           \<and> (Object_entries (urlParams c D) \<noteq> []
                \<longrightarrow> url_query u' = Some (urlencoded_serialize (url_searchParams u')))"
    using on fold_searchParams_append[of "Object_entries (urlParams c D)" u]
    by (simp add: appendParams_def)
  from 1 2 3 4 5 6 show ?thesis by blast
qed


text \<open>
  A key of the mappings that the URL already carries appears twice in the final query
  string: \<open>get('https://api.example.com/data?x=1', {params: {x: '2'}})\<close>.
\<close>

theorem merged_query_parameters_counterexample:
  "map_sum id fst
     (prepare (mock_platform success_response example_urls) empty_config GET
        ''https://api.example.com/data?x=1'' JUndefined config_params_x)
   = Inr ''https://api.example.com/data?x=1&x=2''
   \<and> (case appendParams config_params_x empty_config (UrlObject example_url_with_query) of
        UrlObject u \<Rightarrow> count_list (map fst (url_searchParams u)) ''x''
      | UrlString s \<Rightarrow> 0) = 2"
  by code_simp

lemma query_example:
  "join ''&'' (map (\<lambda>kv. fst kv @ ''='' @ encodeURIComponent (snd kv))
     (Object_entries (urlParams config_params defaults_params)))
   = ''lang=en&page=2&q=a%20b%26c''"
  by code_simp

lemma entries_example:
  "Object_entries (urlParams config_params defaults_params)
   = [(''lang'', ''en''), (''page'', ''2''), (''q'', ''a b&c'')]"
  by code_simp

lemma serialize_example:
  "urlencoded_serialize [(''lang'', ''en''), (''page'', ''2''), (''q'', ''a b&c'')]
   = ''lang=en&page=2&q=a+b%26c''"
  by code_simp

theorem merged_query_parameters_witness:
  "property (params config_params) ''page'' = Some ''2''
   \<and> property (params defaults_params) ''page'' = Some ''1''
   \<and> (''page'', ''2'') \<in> set (Object_entries (urlParams config_params defaults_params))
   \<and> count_list (map fst (Object_entries (urlParams config_params defaults_params))) ''page'' = 1
   \<and> property (params config_params) ''lang'' = None
   \<and> (''lang'', ''en'') \<in> set (Object_entries (urlParams config_params defaults_params))
   \<and> appendParams config_params defaults_params (UrlString ''/search'')
       = UrlString ''/search?lang=en&page=2&q=a%20b%26c''
   \<and> (\<exists>u'. appendParams config_params defaults_params (UrlObject example_url) = UrlObject u'
          \<and> url_searchParams u' = [(''lang'', ''en''), (''page'', ''2''), (''q'', ''a b&c'')]
          \<and> url_query u' = Some ''lang=en&page=2&q=a+b%26c'')"
proof -
  have c: "property (params config_params) ''page'' = Some ''2''"
    and d: "property (params defaults_params) ''page'' = Some ''1''"
    and l: "property (params config_params) ''lang'' = None"
    and l': "property (params defaults_params) ''lang'' = Some ''en''"
    by (simp_all add: property_def config_params_def defaults_params_def empty_config_def)
  have s: "params config_params \<noteq> None \<or> params defaults_params \<noteq> None"
    by (simp add: config_params_def empty_config_def)
  note m = merged_query_parameters[OF s, where k = "''page''" and v = "''2''" and s = "''/search''"
      and u = example_url]
  have "(''page'', ''2'') \<in> set (Object_entries (urlParams config_params defaults_params))"
    using m[THEN conjunct1] c by simp
  moreover have "count_list (map fst (Object_entries (urlParams config_params defaults_params))) ''page'' = 1"
    using m[THEN conjunct2, THEN conjunct2, THEN conjunct1] c by simp
  moreover have "(''lang'', ''en'') \<in> set (Object_entries (urlParams config_params defaults_params))"
    using merged_query_parameters[OF s, where k = "''lang''" and v = "''en''",
        THEN conjunct2, THEN conjunct1] l l'
    by simp
  moreover have "appendParams config_params defaults_params (UrlString ''/search'')
       = UrlString ''/search?lang=en&page=2&q=a%20b%26c''"
    using m[THEN conjunct2, THEN conjunct2, THEN conjunct2, THEN conjunct1, unfolded query_example]
    by simp
  moreover have "\<exists>u'. appendParams config_params defaults_params (UrlObject example_url) = UrlObject u'
          \<and> url_searchParams u' = [(''lang'', ''en''), (''page'', ''2''), (''q'', ''a b&c'')]
          \<and> url_query u' = Some ''lang=en&page=2&q=a+b%26c''"
    using m[THEN conjunct2, THEN conjunct2, THEN conjunct2, THEN conjunct2, THEN conjunct2,
        unfolded entries_example]
    by (auto simp: example_url_def serialize_example)
  ultimately show ?thesis using c d l by simp
qed

section \<open>Status validation\<close>







section \<open>Serialising the payload\<close>

text \<open>
  C6 (as amended). For every truthy payload of a call that reaches the transport, let
  \<open>d'\<close> be the payload as it stands after the request transform: the output of the
  transform configured (per-call, else default) on the payload and the merged headers, and
  the payload itself when none is configured. The body handed to the transport is the
  URL-encoded form serialisation of \<open>d'\<close> when the effective content type is
  \<open>application/x-www-form-urlencoded\<close> and the JSON text of \<open>d'\<close> otherwise, provided
  \<open>d'\<close> is truthy; when the transform gives a falsy value there is no body.
\<close>

theorem payload_serialization:
  assumes "truthy d"
    and "prepare p D m url d c = Inr call"
    and "d' = (case transformRequest c of Some f \<Rightarrow> f d (init_headers (snd call))
               | None \<Rightarrow> (case transformRequest D of Some f \<Rightarrow> f d (init_headers (snd call))
                           | None \<Rightarrow> d))"
    and "ct = (case contentType c of Some x \<Rightarrow> x
               | None \<Rightarrow> (case contentType D of Some x \<Rightarrow> x | None \<Rightarrow> ApplicationJson))"
  shows "init_body (snd call) =
           (if \<not> truthy d' then None
            else if ct = FormUrlencoded then URLSearchParams_string p d'
            else Some (JSON_stringify p d'))"
proof -
  have h: "init_headers (snd call) = requestHeaders c D"
    using prepare_Inr(2)[OF assms(2)] .
  have "requestData c D d (requestHeaders c D) = d'"
    unfolding assms(3) h using assms(1) by (simp add: requestData_cases)
  moreover have "effective_contentType c D = ct"
    using assms(4) by (simp add: effective_contentType_cases)
  ultimately have "requestBody p ct d' = Inr (init_body (snd call))"
    using prepare_Inr(4)[OF assms(2)] by simp
  then show ?thesis
    by (auto simp: requestBody_def split: if_splits option.splits)
qed

text \<open>
  The body is not the serialisation of the payload passed in when a request transform is
  configured: a transform that wraps the payload puts the wrapped value on the wire.
\<close>

theorem payload_serialization_counterexample:
  "truthy payload_example
   \<and> map_sum id (init_body \<circ> snd)
        (prepare (mock_platform success_response example_urls) empty_config POST
           ''https://api.example.com/data'' payload_example config_wrapping)
      \<noteq> Inr (Some (JSON_stringify (mock_platform success_response example_urls) payload_example))"
  by code_simp


lemma prepare_post_wrapped:
  "prepare (mock_platform success_response example_urls) empty_config POST
     ''https://api.example.com/data'' payload_example config_wrapping
   = Inr (''https://api.example.com/data'',
          \<lparr>init_method = POST, init_headers = [(''Content-Type'', ''application/json'')],
           init_body = Some (mock_JSON_stringify (JObj [(''wrapped'', JObj [(''a'', JNum 1)])])),
           init_signal = None\<rparr>)"
  by code_simp

lemma prepare_post_form:
  "prepare (mock_platform success_response example_urls) empty_config POST
     ''https://api.example.com/data'' (JObj [(''name'', JStr ''Ada L''), (''lang'', JStr ''c++'')])
     config_form
   = Inr (''https://api.example.com/data'',
          \<lparr>init_method = POST,
           init_headers = [(''Content-Type'', ''application/x-www-form-urlencoded'')],
           init_body = Some ''name=Ada+L&lang=c%2B%2B'', init_signal = None\<rparr>)"
  by code_simp

theorem payload_serialization_witness:
  "truthy (JObj [(''name'', JStr ''Ada L''), (''lang'', JStr ''c++'')])
   \<and> Some ''name=Ada+L&lang=c%2B%2B''
       = URLSearchParams_string (mock_platform success_response example_urls)
           (JObj [(''name'', JStr ''Ada L''), (''lang'', JStr ''c++'')])
   \<and> truthy payload_example
   \<and> Some (mock_JSON_stringify (JObj [(''wrapped'', JObj [(''a'', JNum 1)])]))
       = Some (JSON_stringify (mock_platform success_response example_urls)
                 (JObj [(''wrapped'', payload_example)]))"
proof -
  have t: "truthy (JObj [(''name'', JStr ''Ada L''), (''lang'', JStr ''c++'')])"
    and t': "truthy payload_example"
    by (simp_all add: payload_example_def)
  have "Some ''name=Ada+L&lang=c%2B%2B''
       = URLSearchParams_string (mock_platform success_response example_urls)
           (JObj [(''name'', JStr ''Ada L''), (''lang'', JStr ''c++'')])"
    using payload_serialization[OF t prepare_post_form refl refl] t
    by (simp add: config_form_def empty_config_def)
  moreover have "Some (mock_JSON_stringify (JObj [(''wrapped'', JObj [(''a'', JNum 1)])]))
       = Some (JSON_stringify (mock_platform success_response example_urls)
                 (JObj [(''wrapped'', payload_example)]))"
    using payload_serialization[OF t' prepare_post_wrapped refl refl]
    by (simp add: config_wrapping_def empty_config_def)
  ultimately show ?thesis using t t' by simp
qed

section \<open>The bearer token\<close>






section \<open>A falsy payload\<close>

text \<open>
  C8. For every falsy payload (\<open>0\<close>, the empty string, \<open>false\<close>, \<open>null\<close>,
  \<open>undefined\<close>), whatever the method: the request transform is not applied (the payload
  stays as it is, and the prepared call is the one prepared with the transform removed
  from the per-call config and from the defaults), and the options handed to the transport
  have no body.
\<close>

theorem falsy_payload_no_body:
  assumes "\<not> truthy d"
  shows "requestData c D d hs = d
         \<and> prepare p D m url d c
             = prepare p (D\<lparr>transformRequest := None\<rparr>) m url d (c\<lparr>transformRequest := None\<rparr>)
         \<and> (prepare p D m url d c = Inr call \<longrightarrow> init_body (snd call) = None)"
proof (intro conjI impI)
  show "requestData c D d hs = d"
    using assms by (simp add: requestData_def)
  show "prepare p D m url d c
          = prepare p (D\<lparr>transformRequest := None\<rparr>) m url d (c\<lparr>transformRequest := None\<rparr>)"
  proof -
    let ?c = "c\<lparr>transformRequest := None\<rparr>" and ?D = "D\<lparr>transformRequest := None\<rparr>"
    have u: "urlParams ?c ?D = urlParams c D"
      by (simp add: urlParams_def)
    have a: "appendParams ?c ?D x = appendParams c D x" for x
      by (cases x) (simp_all add: appendParams_def u)
    have b: "effective_baseUrl ?c ?D = effective_baseUrl c D"
      "effective_contentType ?c ?D = effective_contentType c D"
      "requestHeaders ?c ?D = requestHeaders c D"
      "abortTimer ?c ?D = abortTimer c D"
      "requestData ?c ?D d = requestData c D d"
      using assms
      by (simp_all add: effective_baseUrl_def fun_eq_iff
            effective_contentType_def requestHeaders_def abortTimer_def requestData_def)
    show ?thesis unfolding prepare_def a b ..
  qed
  assume "prepare p D m url d c = Inr call"
  then have "requestBody p (effective_contentType c D) (requestData c D d (requestHeaders c D))
               = Inr (init_body (snd call))"
    by (rule prepare_Inr(4))
  with assms show "init_body (snd call) = None"
    by (simp add: requestData_def requestBody_def)
qed

lemma prepare_post_zero:
  "prepare (mock_platform success_response example_urls) empty_config POST
     ''https://api.example.com/data'' (JNum 0) config_wrapping
   = Inr (''https://api.example.com/data'',
          \<lparr>init_method = POST, init_headers = [(''Content-Type'', ''application/json'')],
           init_body = None, init_signal = None\<rparr>)"
  by code_simp

theorem falsy_payload_no_body_witness:
  "\<not> truthy (JNum 0) \<and> \<not> truthy (JStr []) \<and> \<not> truthy (JBool False)
   \<and> transformRequest config_wrapping \<noteq> None
   \<and> init_body \<lparr>init_method = POST, init_headers = [(''Content-Type'', ''application/json'')],
           init_body = None, init_signal = None\<rparr> = None
   \<and> requestData config_wrapping empty_config (JStr []) [] = JStr []
   \<and> requestData config_wrapping empty_config (JBool False) [] = JBool False"
proof -
  have z: "\<not> truthy (JNum 0)" and e: "\<not> truthy (JStr [])" and f: "\<not> truthy (JBool False)"
    by simp_all
  have "init_body \<lparr>init_method = POST, init_headers = [(''Content-Type'', ''application/json'')],
           init_body = None, init_signal = None\<rparr> = None"
    using falsy_payload_no_body[OF z, THEN conjunct2, THEN conjunct2] prepare_post_zero by simp
  moreover have "requestData config_wrapping empty_config (JStr []) [] = JStr []"
    using falsy_payload_no_body[OF e, THEN conjunct1] .
  moreover have "requestData config_wrapping empty_config (JBool False) [] = JBool False"
    using falsy_payload_no_body[OF f, THEN conjunct1] .
  moreover have "transformRequest config_wrapping \<noteq> None"
    by (simp add: config_wrapping_def)
  ultimately show ?thesis by simp
qed

section \<open>The method wrappers\<close>

text \<open>
  C9. \<open>get(url, config)\<close> is \<open>request('GET', url, undefined, config)\<close>,
  \<open>delete(url, config)\<close> is \<open>request('DELETE', url, undefined, config)\<close>,
  \<open>post(url, data, config)\<close> is \<open>request('POST', url, data, config)\<close> and
  \<open>put(url, data, config)\<close> is \<open>request('PUT', url, data, config)\<close>, for every platform,
  defaults object, url, payload, config and state of the transport: the wrappers add
  nothing of their own.
\<close>

theorem wrappers_forward:
  "get p defaults url cfg s = request p defaults GET url JUndefined cfg s
   \<and> delete p defaults url cfg s = request p defaults DELETE url JUndefined cfg s
   \<and> post p defaults url d cfg s = request p defaults POST url d cfg s
   \<and> put p defaults url d cfg s = request p defaults PUT url d cfg s"
  by (simp add: get_def delete_def post_def put_def)

section \<open>Determinism\<close>




end
